theory Spec2Isabelle
  imports Main "HOL-Library.Sublist"
begin

section \<open>Mixed-precision plugins (nemo/lightning/pytorch/plugins/mixed_precision.py)\<close>

subsection \<open>Values of the collaborating frameworks\<close>

text \<open>
  The plugin is glue between the trainer framework and the optimizer wrapper. Its own
  decisions are modelled exactly; the collaborators appear as the values the plugin
  passes around and as the calls it makes on them.

  The precision argument is compared with string literals; callers may also pass an
  integer (the annotation of \<open>MegatronHalfPrecision\<close> is \<open>Union[str, int]\<close>), which
  is equal to no string.
\<close>

datatype precision_value = PrecisionStr string | PrecisionInt int

datatype torch_dtype = torch_float32 | torch_float16 | torch_bfloat16 | torch_int64

text \<open>A tensor, as far as casting is concerned: its dtype and the identity of its data.\<close>

record tensor =
  tensor_dtype :: torch_dtype
  tensor_id :: nat

definition half :: "tensor \<Rightarrow> tensor" where
  "half val = val\<lparr>tensor_dtype := torch_float16\<rparr>"

definition bfloat16 :: "tensor \<Rightarrow> tensor" where
  "bfloat16 val = val\<lparr>tensor_dtype := torch_bfloat16\<rparr>"

definition float :: "tensor \<Rightarrow> tensor" where
  "float val = val\<lparr>tensor_dtype := torch_float32\<rparr>"

definition is_floating_point :: "tensor \<Rightarrow> bool" where
  "is_floating_point val = (tensor_dtype val \<noteq> torch_int64)"

text \<open>
  A module is its list of parameters; \<open>Module.half()\<close> and \<open>Module.bfloat16()\<close> cast the
  floating-point parameters and leave the others.
\<close>

type_synonym module = "tensor list"

definition module_half :: "module \<Rightarrow> module" where
  "module_half m = map (\<lambda>p. if is_floating_point p then half p else p) m"

definition module_bfloat16 :: "module \<Rightarrow> module" where
  "module_bfloat16 m = map (\<lambda>p. if is_floating_point p then bfloat16 p else p) m"

text \<open>
  \<open>GradScaler(init_scale=..., growth_interval=..., hysteresis=...)\<close>: the scaler object is
  the three constructor arguments the plugin chooses.
\<close>

record grad_scaler =
  init_scale :: int
  growth_interval :: int
  hysteresis :: int

definition GradScaler :: "int \<Rightarrow> int \<Rightarrow> int \<Rightarrow> grad_scaler" where
  "GradScaler i g h = \<lparr>init_scale = i, growth_interval = g, hysteresis = h\<rparr>"

text \<open>The \<open>scaler\<close> parameter: \<open>Optional[Union[torch.cuda.amp.GradScaler, str]]\<close>.\<close>

datatype scaler_arg = ScalerNone | ScalerStr string | ScalerObject grad_scaler

datatype error =
    AssertionError
  | AttributeError
  | UnboundLocalError
  | RecursionError
  | TypeError
  | InvalidReference
  | FrameworkError string

text \<open>
  The two calls the constructor makes into the frameworks may raise; whether they do is
  not decided by this repository, so it is a parameter: \<open>None\<close> means the call returns.
\<close>

record framework =
  MixedPrecision_init_raises :: "precision_value \<Rightarrow> string \<Rightarrow> grad_scaler option \<Rightarrow> error option"
  set_autocast_gpu_dtype_raises :: "torch_dtype option \<Rightarrow> error option"

text \<open>
  The attributes of the base class \<open>MixedPrecision\<close>. When its constructor returns it has
  stored the precision, the device and the scaler it was given; these are the attributes
  \<open>convert_module\<close> and \<open>optimizer_step\<close> read back.
\<close>

record MixedPrecision =
  precision :: precision_value
  device :: string
  scaler :: "grad_scaler option"

definition MixedPrecision_init ::
  "framework \<Rightarrow> precision_value \<Rightarrow> string \<Rightarrow> grad_scaler option \<Rightarrow> error + MixedPrecision" where
  "MixedPrecision_init fw precision_arg device_arg scaler_arg =
     (case MixedPrecision_init_raises fw precision_arg device_arg scaler_arg of
        Some e \<Rightarrow> Inl e
      | None \<Rightarrow> Inr \<lparr>precision = precision_arg, device = device_arg, scaler = scaler_arg\<rparr>)"

subsection \<open>MegatronMixedPrecision\<close>

record MegatronMixedPrecision = MixedPrecision +
  dtype :: "torch_dtype option"
  float16_convertor :: "tensor \<Rightarrow> tensor"
  amp_02 :: bool

text \<open>
  What the object holds when an exception leaves the constructor: the base attributes if
  the base constructor had returned, and \<open>self.dtype\<close> if line 61 had run. The attributes
  \<open>float16_convertor\<close> and \<open>amp_02\<close> are assigned after the last statement that can raise.
\<close>

record partial_init =
  base_stored :: "MixedPrecision option"
  dtype_stored :: "torch_dtype option option"

datatype init_outcome =
    Constructed MegatronMixedPrecision
  | Raised error partial_init

text \<open>
  \<open>MegatronMixedPrecision.__init__(self, precision, amp_02=True, device="cuda", scaler=None)\<close>.
  The local \<open>float16_convertor\<close> is bound only in the two branches of the
  \<open>if\<close>/\<open>elif\<close>; reading it unbound raises \<open>UnboundLocalError\<close>.
\<close>

definition MegatronMixedPrecision_init ::
  "framework \<Rightarrow> precision_value \<Rightarrow> bool \<Rightarrow> string \<Rightarrow> scaler_arg \<Rightarrow> init_outcome" where
  "MegatronMixedPrecision_init fw precision_arg amp_02_arg device_arg scaler_arg =
     (let scaler_local =
            (if precision_arg = PrecisionStr ''bf16-mixed'' then None
             else Some (GradScaler (2 ^ 32) 1000 2))
      in case MixedPrecision_init fw precision_arg device_arg scaler_local of
           Inl e \<Rightarrow> Raised e \<lparr>base_stored = None, dtype_stored = None\<rparr>
         | Inr base \<Rightarrow>
             (let dtype_local =
                    (if precision_arg = PrecisionStr ''16-mixed'' then Some torch_float16
                     else if precision_arg = PrecisionStr ''bf16-mixed'' then Some torch_bfloat16
                     else None);
                  convertor_local =
                    (if precision_arg = PrecisionStr ''16-mixed'' then Some half
                     else if precision_arg = PrecisionStr ''bf16-mixed'' then Some bfloat16
                     else None);
                  at_raise = \<lparr>base_stored = Some base, dtype_stored = Some dtype_local\<rparr>
              in case set_autocast_gpu_dtype_raises fw dtype_local of
                   Some e \<Rightarrow> Raised e at_raise
                 | None \<Rightarrow>
                     (case convertor_local of
                        None \<Rightarrow> Raised UnboundLocalError at_raise
                      | Some convertor \<Rightarrow>
                          Constructed
                            (MixedPrecision.extend base
                               (MegatronMixedPrecision.fields dtype_local convertor amp_02_arg)))))"

text \<open>The scaler attribute of the object the constructor worked on, if it was assigned.\<close>

definition stored_scaler :: "init_outcome \<Rightarrow> grad_scaler option option" where
  "stored_scaler out =
     (case out of
        Constructed self \<Rightarrow> Some (scaler self)
      | Raised e part \<Rightarrow> map_option scaler (base_stored part))"

text \<open>A framework whose calls return: the setting in which the plugin's own checks decide.\<close>

definition framework_returns :: "framework \<Rightarrow> precision_value \<Rightarrow> string \<Rightarrow> bool" where
  "framework_returns fw precision_arg device_arg =
     (MixedPrecision_init_raises fw precision_arg device_arg
        (if precision_arg = PrecisionStr ''bf16-mixed'' then None
         else Some (GradScaler (2 ^ 32) 1000 2)) = None
      \<and> set_autocast_gpu_dtype_raises fw
        (if precision_arg = PrecisionStr ''16-mixed'' then Some torch_float16
         else if precision_arg = PrecisionStr ''bf16-mixed'' then Some torch_bfloat16
         else None) = None)"

definition permissive :: framework where
  "permissive =
     \<lparr>MixedPrecision_init_raises = (\<lambda>p d s. None),
      set_autocast_gpu_dtype_raises = (\<lambda>d. None)\<rparr>"

text \<open>
  A framework that, like the trainer framework from version 2.0 on, refuses every precision
  but the two mixed ones (the comment at line 48 of the source).
\<close>

definition strict :: framework where
  "strict =
     \<lparr>MixedPrecision_init_raises =
        (\<lambda>p d s. if p = PrecisionStr ''16-mixed'' \<or> p = PrecisionStr ''bf16-mixed'' then None
                 else Some (FrameworkError ''ValueError'')),
      set_autocast_gpu_dtype_raises = (\<lambda>d. None)\<rparr>"

subsection \<open>Optimizers and the master-parameter wrapper\<close>

text \<open>
  An optimizer is a plain one, known by its identity, or
  \<open>MainParamsOptimizerWrapper(optimizer, fp32_grad_accum=..., contiguous_grad_bucket=...)\<close>.
  The wrapper class is defined in \<open>nemo.core.optim\<close>; of it the plugin uses the constructor,
  the \<open>isinstance\<close> test and the attribute \<open>fp32_grad_accumulation\<close>, which a plain
  optimizer does not have.
\<close>

datatype optimizer =
    TorchOptimizer nat
  | MainParamsOptimizerWrapper optimizer bool bool

fun isinstance_MainParamsOptimizerWrapper :: "optimizer \<Rightarrow> bool" where
  "isinstance_MainParamsOptimizerWrapper (MainParamsOptimizerWrapper opt acc bucket) = True"
| "isinstance_MainParamsOptimizerWrapper (TorchOptimizer n) = False"

fun fp32_grad_accumulation :: "optimizer \<Rightarrow> bool option" where
  "fp32_grad_accumulation (MainParamsOptimizerWrapper opt acc bucket) = Some acc"
| "fp32_grad_accumulation (TorchOptimizer n) = None"

definition convert_optimizer :: "MegatronMixedPrecision \<Rightarrow> optimizer \<Rightarrow> optimizer" where
  "convert_optimizer self opt =
     (if isinstance_MainParamsOptimizerWrapper opt \<or> \<not> amp_02 self then opt
      else MainParamsOptimizerWrapper opt True True)"

text \<open>
  \<open>connect\<close>: the guard reads \<open>optimizers[0]\<close> only when the list is not empty
  (\<open>not optimizers or ...\<close> short-circuits), so the list is split first.
\<close>

definition connect ::
  "MegatronMixedPrecision \<Rightarrow> 'm \<Rightarrow> optimizer list \<Rightarrow> 's list \<Rightarrow> 'm \<times> optimizer list \<times> 's list" where
  "connect self model optimizers lr_schedulers =
     (case optimizers of
        [] \<Rightarrow> (model, optimizers, lr_schedulers)
      | first # others \<Rightarrow>
          if \<not> amp_02 self \<or> isinstance_MainParamsOptimizerWrapper first
          then (model, optimizers, lr_schedulers)
          else (model, optimizers[0 := convert_optimizer self (optimizers ! 0)], lr_schedulers))"

definition convert_module :: "MegatronMixedPrecision \<Rightarrow> module \<Rightarrow> module" where
  "convert_module self m =
     (if precision self = PrecisionStr ''bf16-mixed'' then module_bfloat16 m
      else if precision self = PrecisionStr ''16-mixed'' then module_half m
      else m)"

subsection \<open>Casting the inputs and outputs of the forward pass\<close>

text \<open>
  What travels through \<open>convert_input\<close> and \<open>convert_output\<close>: tensors, other leaves, and
  tuples and lists of such data.
\<close>

datatype pydata =
    TensorLeaf tensor
  | OtherLeaf string
  | PyTuple "pydata list"
  | PyList "pydata list"

text \<open>
  Modelled from the spec: \<open>megatron.core.transformer.module.fp32_to_float16\<close> and
  \<open>float16_to_fp32\<close> are not among the sources. In the spec's words they cast the fp32
  leaves to the half-precision dtype with the given convertor, and the half-precision
  leaves back to fp32; tuples and lists are traversed, every other value is returned as
  it is.
\<close>

fun conversion_helper :: "(pydata \<Rightarrow> pydata) \<Rightarrow> pydata \<Rightarrow> pydata" where
  "conversion_helper conversion (PyTuple vals) = PyTuple (map (conversion_helper conversion) vals)"
| "conversion_helper conversion (PyList vals) = PyList (map (conversion_helper conversion) vals)"
| "conversion_helper conversion (TensorLeaf t) = conversion (TensorLeaf t)"
| "conversion_helper conversion (OtherLeaf v) = conversion (OtherLeaf v)"

definition half_conversion :: "(tensor \<Rightarrow> tensor) \<Rightarrow> pydata \<Rightarrow> pydata" where
  "half_conversion convertor val =
     (case val of
        TensorLeaf t \<Rightarrow> if tensor_dtype t = torch_float32 then TensorLeaf (convertor t) else val
      | _ \<Rightarrow> val)"

definition float_conversion :: "pydata \<Rightarrow> pydata" where
  "float_conversion val =
     (case val of
        TensorLeaf t \<Rightarrow>
          if tensor_dtype t = torch_bfloat16 \<or> tensor_dtype t = torch_float16
          then TensorLeaf (float t) else val
      | _ \<Rightarrow> val)"

definition fp32_to_float16 :: "pydata \<Rightarrow> (tensor \<Rightarrow> tensor) \<Rightarrow> pydata" where
  "fp32_to_float16 val convertor = conversion_helper (half_conversion convertor) val"

definition float16_to_fp32 :: "pydata \<Rightarrow> pydata" where
  "float16_to_fp32 val = conversion_helper float_conversion val"

definition convert_input :: "MegatronMixedPrecision \<Rightarrow> pydata \<Rightarrow> pydata" where
  "convert_input self data = fp32_to_float16 data (float16_convertor self)"

definition convert_output :: "MegatronMixedPrecision \<Rightarrow> pydata \<Rightarrow> pydata" where
  "convert_output self data = float16_to_fp32 data"

text \<open>The dtypes of the tensor leaves, left to right, and the data with the dtypes erased.\<close>

fun leaf_dtypes :: "pydata \<Rightarrow> torch_dtype list" where
  "leaf_dtypes (TensorLeaf t) = [tensor_dtype t]"
| "leaf_dtypes (OtherLeaf v) = []"
| "leaf_dtypes (PyTuple vals) = concat (map leaf_dtypes vals)"
| "leaf_dtypes (PyList vals) = concat (map leaf_dtypes vals)"

fun erase_dtypes :: "pydata \<Rightarrow> pydata" where
  "erase_dtypes (TensorLeaf t) = TensorLeaf (t\<lparr>tensor_dtype := torch_float32\<rparr>)"
| "erase_dtypes (OtherLeaf v) = OtherLeaf v"
| "erase_dtypes (PyTuple vals) = PyTuple (map erase_dtypes vals)"
| "erase_dtypes (PyList vals) = PyList (map erase_dtypes vals)"

subsection \<open>The optimizer step\<close>

text \<open>
  \<open>optimizer_step\<close> only sequences calls on its collaborators. The model records the
  calls in the order the method makes them; the one value it inspects, the result of the
  closure, is an argument (\<open>None\<close> is Python's \<open>None\<close>). \<open>kwargs\<close> is handed on untouched.

  The model argument is a \<open>LightningModule\<close>, which has \<open>automatic_optimization\<close>, or
  another \<open>torch.nn.Module\<close>.
\<close>

datatype model = LightningModule bool | TorchModule

datatype 'k call =
    super_optimizer_step 'k
  | closure_call
  | after_closure
  | optimizer_step_call 'k
  | copy_model_grads_to_main_grads
  | scaler_unscale
  | scaler_step 'k
  | scaler_update

datatype 'k step_outcome =
    Returned "'k call list"
  | StepRaised error "'k call list"

definition MegatronMixedPrecision_optimizer_step ::
  "MegatronMixedPrecision \<Rightarrow> optimizer \<Rightarrow> model \<Rightarrow> 'c option \<Rightarrow> 'k \<Rightarrow> 'k step_outcome" where
  "MegatronMixedPrecision_optimizer_step self opt mdl closure_result kwargs =
     (if \<not> amp_02 self \<and> \<not> isinstance_MainParamsOptimizerWrapper opt
      then Returned [super_optimizer_step kwargs]
      else
        (case scaler self of
           None \<Rightarrow>
             (case fp32_grad_accumulation opt of
                None \<Rightarrow> StepRaised AttributeError []
              | Some acc \<Rightarrow>
                  if \<not> acc then StepRaised AssertionError []
                  else Returned [closure_call, after_closure, optimizer_step_call kwargs])
         | Some sc \<Rightarrow>
             (case fp32_grad_accumulation opt of
                None \<Rightarrow> StepRaised AttributeError []
              | Some acc \<Rightarrow>
                  if acc then StepRaised AssertionError []
                  else
                    (let skipped_backward = (closure_result = None);
                         calls_before = [closure_call, copy_model_grads_to_main_grads,
                                   scaler_unscale, after_closure]
                     in if (case mdl of
                              TorchModule \<Rightarrow> True
                            | LightningModule automatic_optimization \<Rightarrow>
                                \<not> automatic_optimization \<or> \<not> skipped_backward)
                        then Returned (calls_before @ [scaler_step kwargs, scaler_update])
                        else Returned calls_before))))"

text \<open>
  \<open>MegatronHalfPrecision\<close> adds no attribute to the base class. Its \<open>optimizer_step\<close>
  starts with the \<open>isinstance\<close> assertion and continues as the one above.
\<close>

definition MegatronHalfPrecision_optimizer_step ::
  "MixedPrecision \<Rightarrow> optimizer \<Rightarrow> model \<Rightarrow> 'c option \<Rightarrow> 'k \<Rightarrow> 'k step_outcome" where
  "MegatronHalfPrecision_optimizer_step self opt mdl closure_result kwargs =
     (if \<not> isinstance_MainParamsOptimizerWrapper opt then StepRaised AssertionError []
      else
        (case scaler self of
           None \<Rightarrow>
             (case fp32_grad_accumulation opt of
                None \<Rightarrow> StepRaised AttributeError []
              | Some acc \<Rightarrow>
                  if \<not> acc then StepRaised AssertionError []
                  else Returned [closure_call, after_closure, optimizer_step_call kwargs])
         | Some sc \<Rightarrow>
             (case fp32_grad_accumulation opt of
                None \<Rightarrow> StepRaised AttributeError []
              | Some acc \<Rightarrow>
                  if acc then StepRaised AssertionError []
                  else
                    (let skipped_backward = (closure_result = None);
                         calls_before = [closure_call, copy_model_grads_to_main_grads,
                                   scaler_unscale, after_closure]
                     in if (case mdl of
                              TorchModule \<Rightarrow> True
                            | LightningModule automatic_optimization \<Rightarrow>
                                \<not> automatic_optimization \<or> \<not> skipped_backward)
                        then Returned (calls_before @ [scaler_step kwargs, scaler_update])
                        else Returned calls_before))))"

section \<open>The trainer (nemo/lightning/pytorch/trainer.py)\<close>

subsection \<open>Objects, references and the heap\<close>












subsection \<open>\<open>copy.deepcopy\<close>\<close>





subsection \<open>\<open>Trainer.add_io\<close> and \<open>Trainer.io_init\<close>\<close>





text \<open>
  Of the trainer the two methods use \<open>type(self)\<close> and the attributes of \<open>self.__io__\<close>:
  \<open>io self name = None\<close> says that \<open>hasattr(self.__io__, name)\<close> is false, and an
  attribute that is there holds a value or Python's \<open>None\<close>.
\<close>

record 'v Trainer =
  class_name :: string
  io :: "string \<rightharpoonup> 'v option"


subsection \<open>What a reference denotes, and what it reaches\<close>


















subsection \<open>\<open>Trainer.to_fabric\<close>\<close>

text \<open>
  \<open>fdl.build\<close> and the conversion function \<open>to_fabric\<close> of
  \<open>nemo.lightning.fabric.conversion\<close> are parameters, as is the test
  \<open>isinstance(x, fdl.Config)\<close>. A value of type \<open>'v option\<close> is a Python value, \<open>None\<close>
  being Python's \<open>None\<close>.
\<close>

record 'v conversion =
  isinstance_Config :: "'v \<Rightarrow> bool"
  build :: "'v \<Rightarrow> 'v option"
  conversion_to_fabric :: "'v option \<Rightarrow> 'v option"

record ('v, 'c, 'l) Fabric =
  devices :: "'v option"
  accelerator :: "'v option"
  strategy :: "'v option"
  plugins :: "'v option"
  callbacks :: 'c
  loggers :: 'l

definition to_fabric :: "'v conversion \<Rightarrow> 'v Trainer \<Rightarrow> 'c \<Rightarrow> 'l \<Rightarrow> ('v, 'c, 'l) Fabric" where
  "to_fabric env self callbacks_arg loggers_arg =
     (let devices_local = (case io self ''devices'' of None \<Rightarrow> None | Some v \<Rightarrow> v);
          accelerator_local = (case io self ''accelerator'' of None \<Rightarrow> None | Some v \<Rightarrow> v);
          strategy_local =
            (case io self ''strategy'' of
               None \<Rightarrow> None
             | Some v \<Rightarrow>
                 conversion_to_fabric env
                   (case v of
                      None \<Rightarrow> v
                    | Some c \<Rightarrow> if isinstance_Config env c then build env c else v));
          plugins_local =
            (case io self ''plugins'' of
               None \<Rightarrow> None
             | Some v \<Rightarrow>
                 conversion_to_fabric env
                   (case v of
                      None \<Rightarrow> v
                    | Some c \<Rightarrow> if isinstance_Config env c then build env c else v))
      in \<lparr>devices = devices_local, accelerator = accelerator_local,
          strategy = strategy_local, plugins = plugins_local,
          callbacks = callbacks_arg, loggers = loggers_arg\<rparr>)"

section \<open>Properties of the plugin\<close>

subsection \<open>The constructor\<close>

lemma init_constructed:
  "MegatronMixedPrecision_init fw p a d s = Constructed self \<Longrightarrow>
     precision self = p \<and> device self = d \<and> amp_02 self = a \<and>
     scaler self = (if p = PrecisionStr ''bf16-mixed'' then None else Some (GradScaler (2 ^ 32) 1000 2)) \<and>
     ((p = PrecisionStr ''16-mixed'' \<and> dtype self = Some torch_float16 \<and> float16_convertor self = half) \<or>
      (p = PrecisionStr ''bf16-mixed'' \<and> dtype self = Some torch_bfloat16 \<and> float16_convertor self = bfloat16))"
  by (auto simp add: MegatronMixedPrecision_init_def MixedPrecision_init_def Let_def
      MixedPrecision.defs MegatronMixedPrecision.defs split: option.splits if_splits sum.splits)

lemma init_permissive_fp16:
  "MegatronMixedPrecision_init permissive (PrecisionStr ''16-mixed'') a d s =
     Constructed \<lparr>precision = PrecisionStr ''16-mixed'', device = d,
                  scaler = Some (GradScaler 4294967296 1000 2),
                  dtype = Some torch_float16, float16_convertor = half, amp_02 = a\<rparr>"
  by (simp add: MegatronMixedPrecision_init_def MixedPrecision_init_def permissive_def Let_def
      MixedPrecision.defs MegatronMixedPrecision.defs)

lemma init_permissive_bf16:
  "MegatronMixedPrecision_init permissive (PrecisionStr ''bf16-mixed'') a d s =
     Constructed \<lparr>precision = PrecisionStr ''bf16-mixed'', device = d, scaler = None,
                  dtype = Some torch_bfloat16, float16_convertor = bfloat16, amp_02 = a\<rparr>"
  by (simp add: MegatronMixedPrecision_init_def MixedPrecision_init_def permissive_def Let_def
      MixedPrecision.defs MegatronMixedPrecision.defs)

text \<open>
  C4. The precision selects the dtype: a plugin constructed with \<open>"16-mixed"\<close> has dtype
  \<open>torch.float16\<close> and a convertor that casts to half, one constructed with
  \<open>"bf16-mixed"\<close> has dtype \<open>torch.bfloat16\<close> and a convertor that casts to bfloat16;
  \<open>convert_module\<close> returns \<open>module.bfloat16()\<close> for \<open>"bf16-mixed"\<close>, \<open>module.half()\<close>
  for \<open>"16-mixed"\<close> and the module itself for every other precision.
\<close>

theorem precision_selects_dtype:
  "(MegatronMixedPrecision_init fw (PrecisionStr ''16-mixed'') a d s = Constructed self \<longrightarrow>
      dtype self = Some torch_float16 \<and> float16_convertor self = half \<and>
      (\<forall>t. tensor_dtype (float16_convertor self t) = torch_float16) \<and>
      convert_module self m = module_half m)
   \<and> (MegatronMixedPrecision_init fw (PrecisionStr ''bf16-mixed'') a d s = Constructed self' \<longrightarrow>
      dtype self' = Some torch_bfloat16 \<and> float16_convertor self' = bfloat16 \<and>
      (\<forall>t. tensor_dtype (float16_convertor self' t) = torch_bfloat16) \<and>
      convert_module self' m = module_bfloat16 m)
   \<and> convert_module other m =
       (if precision other = PrecisionStr ''bf16-mixed'' then module_bfloat16 m
        else if precision other = PrecisionStr ''16-mixed'' then module_half m
        else m)"
  using init_constructed[of fw "PrecisionStr ''16-mixed''" a d s self]
        init_constructed[of fw "PrecisionStr ''bf16-mixed''" a d s self']
  by (auto simp add: convert_module_def half_def bfloat16_def)

theorem precision_selects_dtype_witness:
  "MegatronMixedPrecision_init permissive (PrecisionStr ''16-mixed'') True ''cuda'' ScalerNone =
     Constructed \<lparr>precision = PrecisionStr ''16-mixed'', device = ''cuda'',
                  scaler = Some (GradScaler 4294967296 1000 2),
                  dtype = Some torch_float16, float16_convertor = half, amp_02 = True\<rparr>
   \<and> MegatronMixedPrecision_init permissive (PrecisionStr ''bf16-mixed'') True ''cuda'' ScalerNone =
     Constructed \<lparr>precision = PrecisionStr ''bf16-mixed'', device = ''cuda'', scaler = None,
                  dtype = Some torch_bfloat16, float16_convertor = bfloat16, amp_02 = True\<rparr>
   \<and> convert_module
       \<lparr>precision = PrecisionStr ''16-mixed'', device = ''cuda'',
        scaler = Some (GradScaler 4294967296 1000 2),
        dtype = Some torch_float16, float16_convertor = half, amp_02 = True\<rparr>
       [\<lparr>tensor_dtype = torch_float32, tensor_id = 0\<rparr>, \<lparr>tensor_dtype = torch_int64, tensor_id = 1\<rparr>]
     = [\<lparr>tensor_dtype = torch_float16, tensor_id = 0\<rparr>, \<lparr>tensor_dtype = torch_int64, tensor_id = 1\<rparr>]
   \<and> convert_module
       \<lparr>precision = PrecisionStr ''bf16-mixed'', device = ''cuda'', scaler = None,
        dtype = Some torch_bfloat16, float16_convertor = bfloat16, amp_02 = True\<rparr>
       [\<lparr>tensor_dtype = torch_float32, tensor_id = 0\<rparr>, \<lparr>tensor_dtype = torch_int64, tensor_id = 1\<rparr>]
     = [\<lparr>tensor_dtype = torch_bfloat16, tensor_id = 0\<rparr>, \<lparr>tensor_dtype = torch_int64, tensor_id = 1\<rparr>]"
proof -
  let ?fp16 = "\<lparr>precision = PrecisionStr ''16-mixed'', device = ''cuda'',
                  scaler = Some (GradScaler 4294967296 1000 2),
                  dtype = Some torch_float16, float16_convertor = half, amp_02 = True\<rparr>"
  let ?bf16 = "\<lparr>precision = PrecisionStr ''bf16-mixed'', device = ''cuda'', scaler = None,
                  dtype = Some torch_bfloat16, float16_convertor = bfloat16, amp_02 = True\<rparr>"
  let ?m = "[\<lparr>tensor_dtype = torch_float32, tensor_id = 0\<rparr>, \<lparr>tensor_dtype = torch_int64, tensor_id = 1\<rparr>]"
  have h: "MegatronMixedPrecision_init permissive (PrecisionStr ''16-mixed'') True ''cuda'' ScalerNone
             = Constructed ?fp16"
    by (rule init_permissive_fp16)
  have b: "MegatronMixedPrecision_init permissive (PrecisionStr ''bf16-mixed'') True ''cuda'' ScalerNone
             = Constructed ?bf16"
    by (rule init_permissive_bf16)
  from precision_selects_dtype[of permissive True "''cuda''" ScalerNone ?fp16 ?m ?bf16 ?fp16] h b
  have "convert_module ?fp16 ?m = module_half ?m" "convert_module ?bf16 ?m = module_bfloat16 ?m"
    by simp_all
  then show ?thesis using h b
    by (simp add: module_half_def module_bfloat16_def is_floating_point_def half_def bfloat16_def)
qed

text \<open>
  C5. The scaler depends on the precision only: with \<open>"bf16-mixed"\<close> the object stores no
  scaler, with every other precision it stores a new
  \<open>GradScaler(init_scale=2**32, growth_interval=1000, hysteresis=2)\<close>. The scaler is
  stored by the base constructor, so it is there whenever that constructor returns, also
  when the constructor of the plugin raises afterwards.
\<close>

theorem scaler_determined_by_precision:
  "(stored_scaler (MegatronMixedPrecision_init fw p a d s) = Some sc \<longrightarrow>
      sc = (if p = PrecisionStr ''bf16-mixed'' then None else Some (GradScaler (2 ^ 32) 1000 2)))
   \<and> (MixedPrecision_init_raises fw p d
        (if p = PrecisionStr ''bf16-mixed'' then None else Some (GradScaler (2 ^ 32) 1000 2)) = None \<longrightarrow>
      stored_scaler (MegatronMixedPrecision_init fw p a d s) =
        Some (if p = PrecisionStr ''bf16-mixed'' then None else Some (GradScaler (2 ^ 32) 1000 2)))"
  by (auto simp add: MegatronMixedPrecision_init_def MixedPrecision_init_def stored_scaler_def Let_def
      MixedPrecision.defs MegatronMixedPrecision.defs split: option.splits)

theorem scaler_determined_by_precision_witness:
  "stored_scaler (MegatronMixedPrecision_init permissive (PrecisionStr ''bf16-mixed'') True ''cuda'' ScalerNone)
     = Some None
   \<and> stored_scaler (MegatronMixedPrecision_init permissive (PrecisionStr ''16-mixed'') True ''cuda'' ScalerNone)
     = Some (Some \<lparr>init_scale = 4294967296, growth_interval = 1000, hysteresis = 2\<rparr>)
   \<and> stored_scaler (MegatronMixedPrecision_init permissive (PrecisionStr ''32'') True ''cuda'' ScalerNone)
     = Some (Some \<lparr>init_scale = 4294967296, growth_interval = 1000, hysteresis = 2\<rparr>)
   \<and> stored_scaler (MegatronMixedPrecision_init strict (PrecisionStr ''32'') True ''cuda'' ScalerNone)
     = None"
proof -
  let ?g = "Some \<lparr>init_scale = 4294967296, growth_interval = 1000, hysteresis = 2\<rparr>"
  have ret: "MixedPrecision_init_raises permissive p ''cuda'' x = None" for p x
    by (simp add: permissive_def)
  have b: "stored_scaler (MegatronMixedPrecision_init permissive (PrecisionStr ''bf16-mixed'') True ''cuda'' ScalerNone)
             = Some None"
    using scaler_determined_by_precision[of permissive "PrecisionStr ''bf16-mixed''" True "''cuda''" ScalerNone None]
      ret[of "PrecisionStr ''bf16-mixed''" None]
    by simp
  have h: "stored_scaler (MegatronMixedPrecision_init permissive (PrecisionStr ''16-mixed'') True ''cuda'' ScalerNone)
             = Some ?g"
    using scaler_determined_by_precision[of permissive "PrecisionStr ''16-mixed''" True "''cuda''" ScalerNone None]
      ret[of "PrecisionStr ''16-mixed''" "Some (GradScaler (2 ^ 32) 1000 2)"]
    by (simp add: GradScaler_def)
  have o: "stored_scaler (MegatronMixedPrecision_init permissive (PrecisionStr ''32'') True ''cuda'' ScalerNone)
             = Some ?g"
    using scaler_determined_by_precision[of permissive "PrecisionStr ''32''" True "''cuda''" ScalerNone None]
      ret[of "PrecisionStr ''32''" "Some (GradScaler (2 ^ 32) 1000 2)"]
    by (simp add: GradScaler_def)
  have st: "stored_scaler (MegatronMixedPrecision_init strict (PrecisionStr ''32'') True ''cuda'' ScalerNone) = None"
    by (simp add: MegatronMixedPrecision_init_def MixedPrecision_init_def strict_def stored_scaler_def)
  show ?thesis using b h o st by simp
qed

text \<open>
  C9. The \<open>scaler\<close> argument of the constructor is ignored: two constructions that differ
  in it only have the same outcome, and the scaler of the constructed plugin is the one
  the precision determines, whatever was passed.
\<close>

theorem scaler_argument_ignored:
  "MegatronMixedPrecision_init fw p a d s1 = MegatronMixedPrecision_init fw p a d s2
   \<and> (MegatronMixedPrecision_init fw p a d s1 = Constructed self \<longrightarrow>
        scaler self = (if p = PrecisionStr ''bf16-mixed'' then None
                       else Some (GradScaler (2 ^ 32) 1000 2)))"
  using init_constructed[of fw p a d s1 self]
  by (simp add: MegatronMixedPrecision_init_def)

theorem scaler_argument_ignored_witness:
  "MegatronMixedPrecision_init permissive (PrecisionStr ''16-mixed'') True ''cuda''
       (ScalerObject \<lparr>init_scale = 1, growth_interval = 1, hysteresis = 1\<rparr>)
     = MegatronMixedPrecision_init permissive (PrecisionStr ''16-mixed'') True ''cuda'' ScalerNone
   \<and> MegatronMixedPrecision_init permissive (PrecisionStr ''bf16-mixed'') True ''cuda''
       (ScalerObject \<lparr>init_scale = 1, growth_interval = 1, hysteresis = 1\<rparr>)
     = Constructed \<lparr>precision = PrecisionStr ''bf16-mixed'', device = ''cuda'', scaler = None,
                    dtype = Some torch_bfloat16, float16_convertor = bfloat16, amp_02 = True\<rparr>
   \<and> scaler \<lparr>precision = PrecisionStr ''bf16-mixed'', device = ''cuda'', scaler = None,
              dtype = Some torch_bfloat16, float16_convertor = bfloat16, amp_02 = True\<rparr> = None"
  using scaler_argument_ignored[of permissive "PrecisionStr ''16-mixed''" True "''cuda''"
      "ScalerObject \<lparr>init_scale = 1, growth_interval = 1, hysteresis = 1\<rparr>" ScalerNone]
    scaler_argument_ignored[of permissive "PrecisionStr ''bf16-mixed''" True "''cuda''"
      "ScalerObject \<lparr>init_scale = 1, growth_interval = 1, hysteresis = 1\<rparr>" ScalerNone
      "\<lparr>precision = PrecisionStr ''bf16-mixed'', device = ''cuda'', scaler = None,
        dtype = Some torch_bfloat16, float16_convertor = bfloat16, amp_02 = True\<rparr>"]
    init_permissive_bf16[of True "''cuda''" "ScalerObject \<lparr>init_scale = 1, growth_interval = 1, hysteresis = 1\<rparr>"]
  by simp

text \<open>
  C10. The constructor completes for the two supported precisions only. For every other
  precision it raises: the frameworks may refuse the value themselves, and when their
  calls return, the assignment of the unbound local \<open>float16_convertor\<close> raises
  \<open>UnboundLocalError\<close>. For \<open>"16-mixed"\<close> and \<open>"bf16-mixed"\<close> the constructor completes
  when the calls into the frameworks return.
\<close>

theorem init_requires_supported_precision:
  "(p \<noteq> PrecisionStr ''16-mixed'' \<and> p \<noteq> PrecisionStr ''bf16-mixed'' \<longrightarrow>
      (\<exists>e part. MegatronMixedPrecision_init fw p a d s = Raised e part) \<and>
      (framework_returns fw p d \<longrightarrow>
         (\<exists>part. MegatronMixedPrecision_init fw p a d s = Raised UnboundLocalError part)))
   \<and> ((p = PrecisionStr ''16-mixed'' \<or> p = PrecisionStr ''bf16-mixed'') \<and> framework_returns fw p d \<longrightarrow>
        (\<exists>self. MegatronMixedPrecision_init fw p a d s = Constructed self))"
  by (auto simp add: MegatronMixedPrecision_init_def MixedPrecision_init_def framework_returns_def
      Let_def split: option.splits)

theorem init_requires_supported_precision_witness:
  "framework_returns permissive (PrecisionStr ''32'') ''cuda''
   \<and> (\<exists>part. MegatronMixedPrecision_init permissive (PrecisionStr ''32'') True ''cuda'' ScalerNone
               = Raised UnboundLocalError part)
   \<and> (\<exists>e part. MegatronMixedPrecision_init strict (PrecisionStr ''32'') True ''cuda'' ScalerNone
               = Raised e part)
   \<and> (\<exists>e part. MegatronMixedPrecision_init permissive (PrecisionInt 16) True ''cuda'' ScalerNone
               = Raised e part)
   \<and> framework_returns strict (PrecisionStr ''16-mixed'') ''cuda''
   \<and> (\<exists>self. MegatronMixedPrecision_init strict (PrecisionStr ''16-mixed'') True ''cuda'' ScalerNone
               = Constructed self)
   \<and> (\<exists>self. MegatronMixedPrecision_init permissive (PrecisionStr ''bf16-mixed'') True ''cuda'' ScalerNone
               = Constructed self)"
proof -
  have r1: "framework_returns permissive p ''cuda''" for p
    by (simp add: framework_returns_def permissive_def)
  have r2: "framework_returns strict (PrecisionStr ''16-mixed'') ''cuda''"
    by (simp add: framework_returns_def strict_def)
  show ?thesis
    using init_requires_supported_precision[of "PrecisionStr ''32''" permissive True "''cuda''" ScalerNone]
      init_requires_supported_precision[of "PrecisionStr ''32''" strict True "''cuda''" ScalerNone]
      init_requires_supported_precision[of "PrecisionInt 16" permissive True "''cuda''" ScalerNone]
      init_requires_supported_precision[of "PrecisionStr ''16-mixed''" strict True "''cuda''" ScalerNone]
      init_requires_supported_precision[of "PrecisionStr ''bf16-mixed''" permissive True "''cuda''" ScalerNone]
      r1 r2
    by simp
qed

subsection \<open>Connecting the optimizers\<close>

text \<open>
  C3. \<open>connect\<close> wraps the first optimizer exactly when \<open>amp_02\<close> is set, the list of
  optimizers is not empty and its first element is not a \<open>MainParamsOptimizerWrapper\<close>
  already. Then the first element of the result is
  \<open>MainParamsOptimizerWrapper(original, fp32_grad_accum=True, contiguous_grad_bucket=True)\<close>
  and the other optimizers, the model and the schedulers are the ones given. In every other
  case the three arguments are returned as they are.
\<close>

theorem connect_wraps_first_optimizer:
  "connect self model optimizers lr_schedulers =
     (if amp_02 self \<and> optimizers \<noteq> [] \<and> \<not> isinstance_MainParamsOptimizerWrapper (hd optimizers)
      then (model, MainParamsOptimizerWrapper (hd optimizers) True True # tl optimizers, lr_schedulers)
      else (model, optimizers, lr_schedulers))"
  by (cases optimizers) (simp_all add: connect_def convert_optimizer_def)

theorem connect_wraps_first_optimizer_witness:
  "connect \<lparr>precision = PrecisionStr ''bf16-mixed'', device = ''cuda'', scaler = None,
            dtype = Some torch_bfloat16, float16_convertor = bfloat16, amp_02 = True\<rparr>
       (0::nat) [TorchOptimizer 0, TorchOptimizer 1] [1::nat, 2]
     = (0, [MainParamsOptimizerWrapper (TorchOptimizer 0) True True, TorchOptimizer 1], [1, 2])
   \<and> connect \<lparr>precision = PrecisionStr ''bf16-mixed'', device = ''cuda'', scaler = None,
            dtype = Some torch_bfloat16, float16_convertor = bfloat16, amp_02 = False\<rparr>
       (0::nat) [TorchOptimizer 0, TorchOptimizer 1] [1::nat, 2]
     = (0, [TorchOptimizer 0, TorchOptimizer 1], [1, 2])
   \<and> connect \<lparr>precision = PrecisionStr ''bf16-mixed'', device = ''cuda'', scaler = None,
            dtype = Some torch_bfloat16, float16_convertor = bfloat16, amp_02 = True\<rparr>
       (0::nat) [MainParamsOptimizerWrapper (TorchOptimizer 0) False False, TorchOptimizer 1] [1::nat, 2]
     = (0, [MainParamsOptimizerWrapper (TorchOptimizer 0) False False, TorchOptimizer 1], [1, 2])
   \<and> connect \<lparr>precision = PrecisionStr ''bf16-mixed'', device = ''cuda'', scaler = None,
            dtype = Some torch_bfloat16, float16_convertor = bfloat16, amp_02 = True\<rparr>
       (0::nat) [] [1::nat, 2]
     = (0, [], [1, 2])"
  using connect_wraps_first_optimizer[of
      "\<lparr>precision = PrecisionStr ''bf16-mixed'', device = ''cuda'', scaler = None,
        dtype = Some torch_bfloat16, float16_convertor = bfloat16, amp_02 = True\<rparr>"
      "0::nat" "[TorchOptimizer 0, TorchOptimizer 1]" "[1::nat, 2]"]
    connect_wraps_first_optimizer[of
      "\<lparr>precision = PrecisionStr ''bf16-mixed'', device = ''cuda'', scaler = None,
        dtype = Some torch_bfloat16, float16_convertor = bfloat16, amp_02 = False\<rparr>"
      "0::nat" "[TorchOptimizer 0, TorchOptimizer 1]" "[1::nat, 2]"]
    connect_wraps_first_optimizer[of
      "\<lparr>precision = PrecisionStr ''bf16-mixed'', device = ''cuda'', scaler = None,
        dtype = Some torch_bfloat16, float16_convertor = bfloat16, amp_02 = True\<rparr>"
      "0::nat" "[MainParamsOptimizerWrapper (TorchOptimizer 0) False False, TorchOptimizer 1]" "[1::nat, 2]"]
    connect_wraps_first_optimizer[of
      "\<lparr>precision = PrecisionStr ''bf16-mixed'', device = ''cuda'', scaler = None,
        dtype = Some torch_bfloat16, float16_convertor = bfloat16, amp_02 = True\<rparr>"
      "0::nat" "[]" "[1::nat, 2]"]
  by simp

subsection \<open>The optimizer step\<close>

text \<open>
  C1. With a scaler and an optimizer whose \<open>fp32_grad_accumulation\<close> is false, both
  \<open>optimizer_step\<close> methods call, in this order, the closure,
  \<open>copy_model_grads_to_main_grads\<close>, the scaler's \<open>unscale_\<close> and the after-closure
  hook; then \<open>scaler.step\<close> and \<open>scaler.update\<close>, unless the model is a
  \<open>LightningModule\<close> with automatic optimization and the closure returned \<open>None\<close>, in
  which case nothing more is called.
\<close>

theorem optimizer_step_fp16_order:
  "(scaler self \<noteq> None \<and> fp32_grad_accumulation opt = Some False \<longrightarrow>
      MegatronMixedPrecision_optimizer_step self opt mdl closure_result kwargs =
        Returned ([closure_call, copy_model_grads_to_main_grads, scaler_unscale, after_closure] @
                  (if mdl = LightningModule True \<and> closure_result = None then []
                   else [scaler_step kwargs, scaler_update])))
   \<and> (scaler hself \<noteq> None \<and> fp32_grad_accumulation opt = Some False \<longrightarrow>
      MegatronHalfPrecision_optimizer_step hself opt mdl closure_result kwargs =
        Returned ([closure_call, copy_model_grads_to_main_grads, scaler_unscale, after_closure] @
                  (if mdl = LightningModule True \<and> closure_result = None then []
                   else [scaler_step kwargs, scaler_update])))"
  by (cases opt; cases mdl)
     (auto simp add: MegatronMixedPrecision_optimizer_step_def MegatronHalfPrecision_optimizer_step_def)

theorem optimizer_step_fp16_order_witness:
  "MegatronMixedPrecision_optimizer_step
       \<lparr>precision = PrecisionStr ''16-mixed'', device = ''cuda'',
        scaler = Some (GradScaler 4294967296 1000 2),
        dtype = Some torch_float16, float16_convertor = half, amp_02 = True\<rparr>
       (MainParamsOptimizerWrapper (TorchOptimizer 0) False True)
       (LightningModule True) (None :: nat option) (7 :: nat)
     = Returned [closure_call, copy_model_grads_to_main_grads, scaler_unscale, after_closure]
   \<and> MegatronHalfPrecision_optimizer_step
       \<lparr>precision = PrecisionStr ''16-mixed'', device = ''cuda'',
        scaler = Some (GradScaler 4294967296 1000 2)\<rparr>
       (MainParamsOptimizerWrapper (TorchOptimizer 0) False True)
       (LightningModule True) (None :: nat option) (7 :: nat)
     = Returned [closure_call, copy_model_grads_to_main_grads, scaler_unscale, after_closure]
   \<and> MegatronMixedPrecision_optimizer_step
       \<lparr>precision = PrecisionStr ''16-mixed'', device = ''cuda'',
        scaler = Some (GradScaler 4294967296 1000 2),
        dtype = Some torch_float16, float16_convertor = half, amp_02 = False\<rparr>
       (MainParamsOptimizerWrapper (TorchOptimizer 0) False True)
       (LightningModule True) (Some (1 :: nat)) (7 :: nat)
     = Returned [closure_call, copy_model_grads_to_main_grads, scaler_unscale, after_closure,
                 scaler_step 7, scaler_update]
   \<and> MegatronHalfPrecision_optimizer_step
       \<lparr>precision = PrecisionStr ''16-mixed'', device = ''cuda'',
        scaler = Some (GradScaler 4294967296 1000 2)\<rparr>
       (MainParamsOptimizerWrapper (TorchOptimizer 0) False True)
       TorchModule (None :: nat option) (7 :: nat)
     = Returned [closure_call, copy_model_grads_to_main_grads, scaler_unscale, after_closure,
                 scaler_step 7, scaler_update]"
proof -
  let ?on = "\<lparr>precision = PrecisionStr ''16-mixed'', device = ''cuda'',
        scaler = Some (GradScaler 4294967296 1000 2),
        dtype = Some torch_float16, float16_convertor = half, amp_02 = True\<rparr>"
  let ?off = "\<lparr>precision = PrecisionStr ''16-mixed'', device = ''cuda'',
        scaler = Some (GradScaler 4294967296 1000 2),
        dtype = Some torch_float16, float16_convertor = half, amp_02 = False\<rparr>"
  let ?h = "\<lparr>precision = PrecisionStr ''16-mixed'', device = ''cuda'',
        scaler = Some (GradScaler 4294967296 1000 2)\<rparr>"
  let ?opt = "MainParamsOptimizerWrapper (TorchOptimizer 0) False True"
  show ?thesis
    using optimizer_step_fp16_order[where self = ?on and hself = ?h and opt = ?opt
        and mdl = "LightningModule True" and closure_result = "None :: nat option" and kwargs = "7 :: nat"]
      optimizer_step_fp16_order[where self = ?off and hself = ?h and opt = ?opt
        and mdl = "LightningModule True" and closure_result = "Some (1 :: nat)" and kwargs = "7 :: nat"]
      optimizer_step_fp16_order[where self = ?on and hself = ?h and opt = ?opt
        and mdl = TorchModule and closure_result = "None :: nat option" and kwargs = "7 :: nat"]
    by simp
qed

text \<open>
  C2, as the claim states it, fails where the call is handed to the base class: a plugin
  made with \<open>amp_02 = False\<close> and a plain optimizer, which has no
  \<open>fp32_grad_accumulation\<close>, raises nothing, with or without a scaler.
\<close>

theorem optimizer_step_assertion_counterexample:
  "MegatronMixedPrecision_init permissive (PrecisionStr ''bf16-mixed'') False ''cuda'' ScalerNone =
     Constructed \<lparr>precision = PrecisionStr ''bf16-mixed'', device = ''cuda'', scaler = None,
                  dtype = Some torch_bfloat16, float16_convertor = bfloat16, amp_02 = False\<rparr>
   \<and> fp32_grad_accumulation (TorchOptimizer 0) \<noteq> Some True
   \<and> MegatronMixedPrecision_optimizer_step
       \<lparr>precision = PrecisionStr ''bf16-mixed'', device = ''cuda'', scaler = None,
        dtype = Some torch_bfloat16, float16_convertor = bfloat16, amp_02 = False\<rparr>
       (TorchOptimizer 0) TorchModule (Some (1 :: nat)) (7 :: nat)
     = Returned [super_optimizer_step 7]
   \<and> MegatronMixedPrecision_init permissive (PrecisionStr ''16-mixed'') False ''cuda'' ScalerNone =
     Constructed \<lparr>precision = PrecisionStr ''16-mixed'', device = ''cuda'',
                  scaler = Some (GradScaler 4294967296 1000 2),
                  dtype = Some torch_float16, float16_convertor = half, amp_02 = False\<rparr>
   \<and> fp32_grad_accumulation (TorchOptimizer 0) \<noteq> Some False
   \<and> MegatronMixedPrecision_optimizer_step
       \<lparr>precision = PrecisionStr ''16-mixed'', device = ''cuda'',
        scaler = Some (GradScaler 4294967296 1000 2),
        dtype = Some torch_float16, float16_convertor = half, amp_02 = False\<rparr>
       (TorchOptimizer 0) TorchModule (Some (1 :: nat)) (7 :: nat)
     = Returned [super_optimizer_step 7]"
  by (simp add: init_permissive_bf16 init_permissive_fp16 MegatronMixedPrecision_optimizer_step_def)

text \<open>
  C2, amended. For an optimizer that is a \<open>MainParamsOptimizerWrapper\<close>,
  \<open>MegatronMixedPrecision.optimizer_step\<close> raises \<open>AssertionError\<close> before the closure
  or any other collaborator is called when there is no scaler and
  \<open>fp32_grad_accumulation\<close> is not true, and when there is a scaler and
  \<open>fp32_grad_accumulation\<close> is not false. \<open>MegatronHalfPrecision.optimizer_step\<close> does
  so for every optimizer. When \<open>amp_02\<close> is false and the optimizer is not a
  \<open>MainParamsOptimizerWrapper\<close>, \<open>MegatronMixedPrecision.optimizer_step\<close> asserts
  nothing and hands the call to the base class.
\<close>

theorem optimizer_step_assertions:
  "(isinstance_MainParamsOptimizerWrapper opt \<and> scaler self = None \<and>
      fp32_grad_accumulation opt \<noteq> Some True \<longrightarrow>
      MegatronMixedPrecision_optimizer_step self opt mdl closure_result kwargs = StepRaised AssertionError [])
   \<and> (isinstance_MainParamsOptimizerWrapper opt \<and> scaler self \<noteq> None \<and>
      fp32_grad_accumulation opt \<noteq> Some False \<longrightarrow>
      MegatronMixedPrecision_optimizer_step self opt mdl closure_result kwargs = StepRaised AssertionError [])
   \<and> (scaler hself = None \<and> fp32_grad_accumulation opt \<noteq> Some True \<longrightarrow>
      MegatronHalfPrecision_optimizer_step hself opt mdl closure_result kwargs = StepRaised AssertionError [])
   \<and> (scaler hself \<noteq> None \<and> fp32_grad_accumulation opt \<noteq> Some False \<longrightarrow>
      MegatronHalfPrecision_optimizer_step hself opt mdl closure_result kwargs = StepRaised AssertionError [])
   \<and> (\<not> amp_02 self \<and> \<not> isinstance_MainParamsOptimizerWrapper opt \<longrightarrow>
      MegatronMixedPrecision_optimizer_step self opt mdl closure_result kwargs =
        Returned [super_optimizer_step kwargs])"
  by (cases opt)
     (auto simp add: MegatronMixedPrecision_optimizer_step_def MegatronHalfPrecision_optimizer_step_def)

theorem optimizer_step_assertions_witness:
  "MegatronMixedPrecision_optimizer_step
       \<lparr>precision = PrecisionStr ''bf16-mixed'', device = ''cuda'', scaler = None,
        dtype = Some torch_bfloat16, float16_convertor = bfloat16, amp_02 = True\<rparr>
       (MainParamsOptimizerWrapper (TorchOptimizer 0) False True)
       TorchModule (Some (1 :: nat)) (7 :: nat)
     = StepRaised AssertionError []
   \<and> MegatronMixedPrecision_optimizer_step
       \<lparr>precision = PrecisionStr ''16-mixed'', device = ''cuda'',
        scaler = Some (GradScaler 4294967296 1000 2),
        dtype = Some torch_float16, float16_convertor = half, amp_02 = True\<rparr>
       (MainParamsOptimizerWrapper (TorchOptimizer 0) True True)
       TorchModule (Some (1 :: nat)) (7 :: nat)
     = StepRaised AssertionError []
   \<and> MegatronHalfPrecision_optimizer_step
       \<lparr>precision = PrecisionStr ''bf16-mixed'', device = ''cuda'', scaler = None\<rparr>
       (TorchOptimizer 0) TorchModule (Some (1 :: nat)) (7 :: nat)
     = StepRaised AssertionError []
   \<and> MegatronHalfPrecision_optimizer_step
       \<lparr>precision = PrecisionStr ''16-mixed'', device = ''cuda'',
        scaler = Some (GradScaler 4294967296 1000 2)\<rparr>
       (MainParamsOptimizerWrapper (TorchOptimizer 0) True True)
       TorchModule (Some (1 :: nat)) (7 :: nat)
     = StepRaised AssertionError []
   \<and> MegatronMixedPrecision_optimizer_step
       \<lparr>precision = PrecisionStr ''bf16-mixed'', device = ''cuda'', scaler = None,
        dtype = Some torch_bfloat16, float16_convertor = bfloat16, amp_02 = False\<rparr>
       (TorchOptimizer 0) TorchModule (Some (1 :: nat)) (7 :: nat)
     = Returned [super_optimizer_step 7]"
proof -
  let ?bf = "\<lparr>precision = PrecisionStr ''bf16-mixed'', device = ''cuda'', scaler = None,
        dtype = Some torch_bfloat16, float16_convertor = bfloat16, amp_02 = True\<rparr>"
  let ?bf_off = "\<lparr>precision = PrecisionStr ''bf16-mixed'', device = ''cuda'', scaler = None,
        dtype = Some torch_bfloat16, float16_convertor = bfloat16, amp_02 = False\<rparr>"
  let ?fp = "\<lparr>precision = PrecisionStr ''16-mixed'', device = ''cuda'',
        scaler = Some (GradScaler 4294967296 1000 2),
        dtype = Some torch_float16, float16_convertor = half, amp_02 = True\<rparr>"
  let ?hbf = "\<lparr>precision = PrecisionStr ''bf16-mixed'', device = ''cuda'', scaler = None\<rparr>"
  let ?hfp = "\<lparr>precision = PrecisionStr ''16-mixed'', device = ''cuda'',
        scaler = Some (GradScaler 4294967296 1000 2)\<rparr>"
  let ?w0 = "MainParamsOptimizerWrapper (TorchOptimizer 0) False True"
  let ?w1 = "MainParamsOptimizerWrapper (TorchOptimizer 0) True True"
  have 1: "MegatronMixedPrecision_optimizer_step ?bf ?w0 TorchModule (Some (1 :: nat)) (7 :: nat)
             = StepRaised AssertionError []"
    using optimizer_step_assertions[of ?w0 ?bf TorchModule "Some (1 :: nat)" "7 :: nat" ?hbf] by simp
  have 2: "MegatronMixedPrecision_optimizer_step ?fp ?w1 TorchModule (Some (1 :: nat)) (7 :: nat)
             = StepRaised AssertionError []"
    using optimizer_step_assertions[of ?w1 ?fp TorchModule "Some (1 :: nat)" "7 :: nat" ?hfp] by simp
  have 3: "MegatronHalfPrecision_optimizer_step ?hbf (TorchOptimizer 0) TorchModule (Some (1 :: nat)) (7 :: nat)
             = StepRaised AssertionError []"
    using optimizer_step_assertions[of "TorchOptimizer 0" ?bf_off TorchModule "Some (1 :: nat)" "7 :: nat" ?hbf]
    by simp
  have 4: "MegatronHalfPrecision_optimizer_step ?hfp ?w1 TorchModule (Some (1 :: nat)) (7 :: nat)
             = StepRaised AssertionError []"
    using optimizer_step_assertions[of ?w1 ?fp TorchModule "Some (1 :: nat)" "7 :: nat" ?hfp] by simp
  have 5: "MegatronMixedPrecision_optimizer_step ?bf_off (TorchOptimizer 0) TorchModule (Some (1 :: nat)) (7 :: nat)
             = Returned [super_optimizer_step 7]"
    using optimizer_step_assertions[of "TorchOptimizer 0" ?bf_off TorchModule "Some (1 :: nat)" "7 :: nat" ?hbf]
    by simp
  show ?thesis using 1 2 3 4 5 by simp
qed

subsection \<open>Casting around the forward pass\<close>

lemma leaf_dtypes_conversion_helper:
  assumes "\<And>t. \<exists>t'. conv (TensorLeaf t) = TensorLeaf t' \<and> tensor_dtype t' = g (tensor_dtype t)"
    and "\<And>v. conv (OtherLeaf v) = OtherLeaf v"
  shows "leaf_dtypes (conversion_helper conv data) = map g (leaf_dtypes data)"
proof (induction data)
  case (TensorLeaf t)
  from assms(1)[of t] show ?case by auto
next
  case (OtherLeaf v)
  then show ?case by (simp add: assms(2))
next
  case (PyTuple vals)
  then show ?case by (simp add: map_concat cong: map_cong)
next
  case (PyList vals)
  then show ?case by (simp add: map_concat cong: map_cong)
qed

lemma erase_conversion_helper:
  assumes "\<And>t. \<exists>t'. conv (TensorLeaf t) = TensorLeaf t' \<and> tensor_id t' = tensor_id t"
    and "\<And>v. conv (OtherLeaf v) = OtherLeaf v"
  shows "erase_dtypes (conversion_helper conv data) = erase_dtypes data"
proof (induction data)
  case (TensorLeaf t)
  from assms(1)[of t] show ?case by auto
next
  case (OtherLeaf v)
  then show ?case by (simp add: assms(2))
next
  case (PyTuple vals)
  then show ?case by (simp cong: map_cong)
next
  case (PyList vals)
  then show ?case by (simp cong: map_cong)
qed

text \<open>
  C6. \<open>convert_input\<close> returns \<open>fp32_to_float16(data, self.float16_convertor)\<close>: in the
  result of a constructed plugin every fp32 leaf has the dtype of the plugin, every other
  leaf its own, and apart from the dtypes the data are the same. \<open>convert_output\<close>
  returns \<open>float16_to_fp32(data)\<close>: every float16 or bfloat16 leaf is fp32 in the result,
  and nothing else changes.
\<close>

theorem convert_input_output_cast:
  "convert_input self data = fp32_to_float16 data (float16_convertor self)
   \<and> convert_output self data = float16_to_fp32 data
   \<and> (MegatronMixedPrecision_init fw p a d s = Constructed self \<longrightarrow>
        map Some (leaf_dtypes (convert_input self data)) =
          map (\<lambda>dt. if dt = torch_float32 then dtype self else Some dt) (leaf_dtypes data)
        \<and> erase_dtypes (convert_input self data) = erase_dtypes data)
   \<and> leaf_dtypes (convert_output self data) =
        map (\<lambda>dt. if dt = torch_float16 \<or> dt = torch_bfloat16 then torch_float32 else dt) (leaf_dtypes data)
   \<and> erase_dtypes (convert_output self data) = erase_dtypes data"
proof -
  have out1: "leaf_dtypes (convert_output self data) =
        map (\<lambda>dt. if dt = torch_float16 \<or> dt = torch_bfloat16 then torch_float32 else dt) (leaf_dtypes data)"
    unfolding convert_output_def float16_to_fp32_def
    by (rule leaf_dtypes_conversion_helper) (auto simp add: float_conversion_def float_def)
  have out2: "erase_dtypes (convert_output self data) = erase_dtypes data"
    unfolding convert_output_def float16_to_fp32_def
    by (rule erase_conversion_helper) (auto simp add: float_conversion_def float_def)
  have in1: "map Some (leaf_dtypes (convert_input self data)) =
          map (\<lambda>dt. if dt = torch_float32 then dtype self else Some dt) (leaf_dtypes data)
        \<and> erase_dtypes (convert_input self data) = erase_dtypes data"
    if c: "MegatronMixedPrecision_init fw p a d s = Constructed self"
  proof -
    from init_constructed[OF c] consider
      (h) "dtype self = Some torch_float16" "float16_convertor self = half"
      | (b) "dtype self = Some torch_bfloat16" "float16_convertor self = bfloat16"
      by auto
    then show ?thesis
    proof cases
      case h
      have "leaf_dtypes (convert_input self data) =
              map (\<lambda>dt. if dt = torch_float32 then torch_float16 else dt) (leaf_dtypes data)"
        unfolding convert_input_def fp32_to_float16_def h
        by (rule leaf_dtypes_conversion_helper) (auto simp add: half_conversion_def half_def)
      moreover have "erase_dtypes (convert_input self data) = erase_dtypes data"
        unfolding convert_input_def fp32_to_float16_def h
        by (rule erase_conversion_helper) (auto simp add: half_conversion_def half_def)
      ultimately show ?thesis using h by (simp add: comp_def if_distrib cong: if_cong)
    next
      case b
      have "leaf_dtypes (convert_input self data) =
              map (\<lambda>dt. if dt = torch_float32 then torch_bfloat16 else dt) (leaf_dtypes data)"
        unfolding convert_input_def fp32_to_float16_def b
        by (rule leaf_dtypes_conversion_helper) (auto simp add: half_conversion_def bfloat16_def)
      moreover have "erase_dtypes (convert_input self data) = erase_dtypes data"
        unfolding convert_input_def fp32_to_float16_def b
        by (rule erase_conversion_helper) (auto simp add: half_conversion_def bfloat16_def)
      ultimately show ?thesis using b by (simp add: comp_def if_distrib cong: if_cong)
    qed
  qed
  show ?thesis using out1 out2 in1 by (simp add: convert_input_def convert_output_def)
qed


theorem convert_input_output_cast_witness:
  "convert_input
       \<lparr>precision = PrecisionStr ''bf16-mixed'', device = ''cuda'', scaler = None,
        dtype = Some torch_bfloat16, float16_convertor = bfloat16, amp_02 = True\<rparr>
       (PyTuple [TensorLeaf \<lparr>tensor_dtype = torch_float32, tensor_id = 0\<rparr>,
                 PyList [TensorLeaf \<lparr>tensor_dtype = torch_int64, tensor_id = 1\<rparr>, OtherLeaf ''mask'']])
     = PyTuple [TensorLeaf \<lparr>tensor_dtype = torch_bfloat16, tensor_id = 0\<rparr>,
                PyList [TensorLeaf \<lparr>tensor_dtype = torch_int64, tensor_id = 1\<rparr>, OtherLeaf ''mask'']]
   \<and> convert_output
       \<lparr>precision = PrecisionStr ''bf16-mixed'', device = ''cuda'', scaler = None,
        dtype = Some torch_bfloat16, float16_convertor = bfloat16, amp_02 = True\<rparr>
       (PyTuple [TensorLeaf \<lparr>tensor_dtype = torch_bfloat16, tensor_id = 0\<rparr>,
                 PyList [TensorLeaf \<lparr>tensor_dtype = torch_int64, tensor_id = 1\<rparr>, OtherLeaf ''mask'']])
     = PyTuple [TensorLeaf \<lparr>tensor_dtype = torch_float32, tensor_id = 0\<rparr>,
                PyList [TensorLeaf \<lparr>tensor_dtype = torch_int64, tensor_id = 1\<rparr>, OtherLeaf ''mask'']]
   \<and> map Some (leaf_dtypes (convert_input
       \<lparr>precision = PrecisionStr ''bf16-mixed'', device = ''cuda'', scaler = None,
        dtype = Some torch_bfloat16, float16_convertor = bfloat16, amp_02 = True\<rparr>
       (PyTuple [TensorLeaf \<lparr>tensor_dtype = torch_float32, tensor_id = 0\<rparr>,
                 PyList [TensorLeaf \<lparr>tensor_dtype = torch_int64, tensor_id = 1\<rparr>, OtherLeaf ''mask'']])))
     = [Some torch_bfloat16, Some torch_int64]"
proof -
  let ?self = "\<lparr>precision = PrecisionStr ''bf16-mixed'', device = ''cuda'', scaler = None,
        dtype = Some torch_bfloat16, float16_convertor = bfloat16, amp_02 = True\<rparr>"
  let ?in = "PyTuple [TensorLeaf \<lparr>tensor_dtype = torch_float32, tensor_id = 0\<rparr>,
                 PyList [TensorLeaf \<lparr>tensor_dtype = torch_int64, tensor_id = 1\<rparr>, OtherLeaf ''mask'']]"
  let ?out = "PyTuple [TensorLeaf \<lparr>tensor_dtype = torch_bfloat16, tensor_id = 0\<rparr>,
                 PyList [TensorLeaf \<lparr>tensor_dtype = torch_int64, tensor_id = 1\<rparr>, OtherLeaf ''mask'']]"
  have c: "MegatronMixedPrecision_init permissive (PrecisionStr ''bf16-mixed'') True ''cuda'' ScalerNone
             = Constructed ?self"
    by (rule init_permissive_bf16)
  from convert_input_output_cast[of ?self ?in permissive "PrecisionStr ''bf16-mixed''" True "''cuda''" ScalerNone] c
  have i: "convert_input ?self ?in = fp32_to_float16 ?in (float16_convertor ?self)"
    and d: "map Some (leaf_dtypes (convert_input ?self ?in)) =
          map (\<lambda>dt. if dt = torch_float32 then dtype ?self else Some dt) (leaf_dtypes ?in)"
    by blast+
  from convert_input_output_cast[of ?self ?out permissive "PrecisionStr ''bf16-mixed''" True "''cuda''" ScalerNone]
  have o: "convert_output ?self ?out = float16_to_fp32 ?out"
    by blast
  show ?thesis
    unfolding i o d
    by (simp add: fp32_to_float16_def float16_to_fp32_def half_conversion_def float_conversion_def
        bfloat16_def float_def)
qed

section \<open>Properties of the trainer\<close>

subsection \<open>Copies on the heap\<close>









































subsection \<open>\<open>io_init\<close>\<close>








subsection \<open>\<open>to_fabric\<close>\<close>

text \<open>
  C8. \<open>to_fabric\<close> builds the \<open>Fabric\<close> from \<open>self.__io__\<close>: \<open>devices\<close> and \<open>accelerator\<close>
  are the attributes of that name, and \<open>None\<close> when there is none; \<open>strategy\<close> and
  \<open>plugins\<close>, when there, are built with \<open>fdl.build\<close> if they are configurations and then
  converted with \<open>to_fabric\<close>, and are \<open>None\<close> when not there; the callbacks and the
  loggers are the ones given.
\<close>

theorem to_fabric_from_io:
  "(io self ''devices'' = None \<longrightarrow> devices (to_fabric env self cbs lgs) = None)
   \<and> (io self ''devices'' = Some v \<longrightarrow> devices (to_fabric env self cbs lgs) = v)
   \<and> (io self ''accelerator'' = None \<longrightarrow> accelerator (to_fabric env self cbs lgs) = None)
   \<and> (io self ''accelerator'' = Some v \<longrightarrow> accelerator (to_fabric env self cbs lgs) = v)
   \<and> (io self ''strategy'' = None \<longrightarrow> strategy (to_fabric env self cbs lgs) = None)
   \<and> (io self ''strategy'' = Some (Some c) \<and> isinstance_Config env c \<longrightarrow>
        strategy (to_fabric env self cbs lgs) = conversion_to_fabric env (build env c))
   \<and> (io self ''strategy'' = Some v \<and> (\<forall>c. v = Some c \<longrightarrow> \<not> isinstance_Config env c) \<longrightarrow>
        strategy (to_fabric env self cbs lgs) = conversion_to_fabric env v)
   \<and> (io self ''plugins'' = None \<longrightarrow> plugins (to_fabric env self cbs lgs) = None)
   \<and> (io self ''plugins'' = Some (Some c) \<and> isinstance_Config env c \<longrightarrow>
        plugins (to_fabric env self cbs lgs) = conversion_to_fabric env (build env c))
   \<and> (io self ''plugins'' = Some v \<and> (\<forall>c. v = Some c \<longrightarrow> \<not> isinstance_Config env c) \<longrightarrow>
        plugins (to_fabric env self cbs lgs) = conversion_to_fabric env v)
   \<and> callbacks (to_fabric env self cbs lgs) = cbs
   \<and> loggers (to_fabric env self cbs lgs) = lgs"
  by (cases v) (auto simp add: to_fabric_def Let_def)

text \<open>
  An example: values are numbers, the even ones are configurations, building adds one and
  the conversion multiplies by ten. The trainer has a device count, a strategy that is a
  configuration and plugins that are not; it has no accelerator attribute.
\<close>

theorem to_fabric_from_io_witness:
  "to_fabric
       \<lparr>isinstance_Config = (\<lambda>c :: nat. even c), build = (\<lambda>c. Some (c + 1)),
        conversion_to_fabric = map_option (\<lambda>x. 10 * x)\<rparr>
       \<lparr>class_name = ''Trainer'',
        io = [''devices'' \<mapsto> Some 8, ''strategy'' \<mapsto> Some 4, ''plugins'' \<mapsto> Some 3]\<rparr>
       [''cb''] [''tb'']
     = \<lparr>devices = Some 8, accelerator = None, strategy = Some 50, plugins = Some 30,
        callbacks = [''cb''], loggers = [''tb'']\<rparr>"
proof -
  let ?env = "\<lparr>isinstance_Config = (\<lambda>c :: nat. even c), build = (\<lambda>c. Some (c + 1)),
        conversion_to_fabric = map_option (\<lambda>x. 10 * x)\<rparr>"
  let ?self = "\<lparr>class_name = ''Trainer'',
        io = [''devices'' \<mapsto> Some (8 :: nat), ''strategy'' \<mapsto> Some 4, ''plugins'' \<mapsto> Some 3]\<rparr>"
  let ?F = "to_fabric ?env ?self [''cb''] [''tb'']"
  from to_fabric_from_io[where self = ?self and v = "Some 8" and env = ?env and cbs = "[''cb'']"
      and lgs = "[''tb'']" and c = 4]
  have d: "devices ?F = Some 8" and a: "accelerator ?F = None" and s: "strategy ?F = Some 50"
    and c: "callbacks ?F = [''cb'']" and l: "loggers ?F = [''tb'']"
    by simp_all
  from to_fabric_from_io[where self = ?self and v = "Some 3" and env = ?env and cbs = "[''cb'']"
      and lgs = "[''tb'']" and c = 3]
  have p: "plugins ?F = Some 30"
    by simp
  have "?F = \<lparr>devices = devices ?F, accelerator = accelerator ?F, strategy = strategy ?F,
               plugins = plugins ?F, callbacks = callbacks ?F, loggers = loggers ?F\<rparr>"
    by simp
  then show ?thesis unfolding d a s p c l .
qed

end
